theory Spec2Isabelle
  imports Main "HOL-Library.Sublist"
begin

section \<open>Strings\<close>

text \<open>
  The program is one browser script, \<^verbatim>\<open>travel_recommendation.js\<close>. Its strings are
  sequences of UTF-16 code units. The model uses \<^typ>\<open>string\<close>, a list of 8-bit
  characters, and reads a character as the code unit of the same number: it covers the
  strings whose code units lie in U+0000 .. U+00FF (ASCII and Latin-1, which holds every
  literal of the script that takes part in a comparison, the table key for Sao Paulo, written with U+00E3,
  included). On that range \<^verbatim>\<open>toLowerCase\<close>, \<^verbatim>\<open>trim\<close> and \<^verbatim>\<open>includes\<close> are as below.
\<close>

definition lowerChar :: "char \<Rightarrow> char" where
  \<comment> \<open>\<^verbatim>\<open>A\<close>..\<^verbatim>\<open>Z\<close>, and U+00C0..U+00DE without the sign U+00D7, move up by 32\<close>
  "lowerChar c =
     (let n = (of_char c :: nat)
      in if (65 \<le> n \<and> n \<le> 90) \<or> (192 \<le> n \<and> n \<le> 222 \<and> n \<noteq> 215)
         then char_of (n + 32) else c)"

definition toLowerCase :: "string \<Rightarrow> string" where
  "toLowerCase s = map lowerChar s"

definition isWhiteSpace :: "char \<Rightarrow> bool" where
  \<comment> \<open>the white space and line terminators of ECMAScript below U+0100:
      TAB, LF, VT, FF, CR, SP, NBSP\<close>
  "isWhiteSpace c = ((of_char c :: nat) \<in> {9, 10, 11, 12, 13, 32, 160})"

definition trim :: "string \<Rightarrow> string" where
  "trim s = rev (dropWhile isWhiteSpace (rev (dropWhile isWhiteSpace s)))"

text \<open>\<^verbatim>\<open>s.includes(t)\<close>: \<open>t\<close> occurs in \<open>s\<close> at some position.\<close>

fun includes_str :: "string \<Rightarrow> string \<Rightarrow> bool" where
  "includes_str [] t = (t = [])"
| "includes_str (c # s) t = (prefix t (c # s) \<or> includes_str s t)"

section \<open>The input normalizer\<close>

text \<open>
  \<^verbatim>\<open>
  function normalizeInput(term) {
      const lowerTerm = term.toLowerCase().trim();
      if (lowerTerm.includes('beach')) return 'beaches';
      if (lowerTerm.includes('temple')) return 'temples';
      if (lowerTerm.includes('country')) return 'countries';
      return lowerTerm;
  }
  \<close>
\<close>

definition normalizeInput :: "string \<Rightarrow> string" where
  "normalizeInput term =
     (let lowerTerm = trim (toLowerCase term)
      in if includes_str lowerTerm ''beach'' then ''beaches''
         else if includes_str lowerTerm ''temple'' then ''temples''
         else if includes_str lowerTerm ''country'' then ''countries''
         else lowerTerm)"

section \<open>The dataset\<close>

text \<open>
  The dataset is the parsed JSON document. A place (a beach, a temple or a city) has a
  name, an image URL and a description; the renderer tests the image URL for absence
  (\<^verbatim>\<open>item.imageUrl && ...\<close>), so it is optional here. A country has a name (the
  field \<^verbatim>\<open>name\<close> of the source) and its cities. The search reads \<^verbatim>\<open>countries\<close>
  unguarded and reads \<^verbatim>\<open>beaches\<close> and \<^verbatim>\<open>temples\<close> through \<^verbatim>\<open>|| []\<close>: the two
  guarded members are optional, \<open>None\<close> standing for an absent or \<^verbatim>\<open>null\<close> member.
\<close>

record place =
  name :: string
  imageUrl :: "string option"
  description :: string

record country =
  countryName :: string
  cities :: "place list"

record dataset =
  countries :: "country list"
  beaches :: "place list option"
  temples :: "place list option"

text \<open>\<^verbatim>\<open>travelData[key]\<close>, for the two keys the search uses it with.\<close>

definition getMember :: "dataset \<Rightarrow> string \<Rightarrow> place list option" where
  "getMember td key =
     (if key = ''beaches'' then beaches td
      else if key = ''temples'' then temples td
      else None)"

section \<open>The search filter\<close>

text \<open>
  Lines 147 to 181 of \<^verbatim>\<open>performSearch\<close>, from the raw term to \<^verbatim>\<open>results\<close> and
  \<^verbatim>\<open>category\<close>.
  \<^verbatim>\<open>
  const normalizedTerm = normalizeInput(rawTerm);
  let results = [];
  let category = '';
  if (normalizedTerm === 'beaches' || normalizedTerm === 'temples') {
      results = travelData[normalizedTerm] || [];
      category = normalizedTerm;
  }
  else if (normalizedTerm === 'countries' || rawTerm.trim() !== '') {
      const countryTerm = rawTerm.toLowerCase().trim();
      category = 'countries';
      const matchingCountries = travelData.countries.filter(country =>
          country.name.toLowerCase().includes(countryTerm) || normalizedTerm === 'countries'
      );
      matchingCountries.forEach(country => {
          country.cities.forEach(city => {
              results.push({name: city.name, imageUrl: city.imageUrl,
                            description: city.description});
          });
      });
  }
  \<close>
  The two \<^verbatim>\<open>forEach\<close> loops are the two recursions below; \<^verbatim>\<open>push\<close> appends at the end.
\<close>

definition matchingCountries :: "dataset \<Rightarrow> string \<Rightarrow> string \<Rightarrow> country list" where
  "matchingCountries td countryTerm normalizedTerm =
     filter (\<lambda>country. includes_str (toLowerCase (countryName country)) countryTerm
                       \<or> normalizedTerm = ''countries'')
            (countries td)"

fun pushCities :: "place list \<Rightarrow> place list \<Rightarrow> place list" where
  "pushCities results [] = results"
| "pushCities results (city # rest) =
     pushCities
       (results @ [\<lparr>name = name city, imageUrl = imageUrl city, description = description city\<rparr>])
       rest"

fun collectCities :: "place list \<Rightarrow> country list \<Rightarrow> place list" where
  "collectCities results [] = results"
| "collectCities results (country # rest) =
     collectCities (pushCities results (cities country)) rest"

definition searchLogic :: "dataset \<Rightarrow> string \<Rightarrow> place list \<times> string" where
  "searchLogic td rawTerm =
     (let normalizedTerm = normalizeInput rawTerm
      in if normalizedTerm = ''beaches'' \<or> normalizedTerm = ''temples''
         then (case getMember td normalizedTerm of Some xs \<Rightarrow> xs | None \<Rightarrow> [],
               normalizedTerm)
         else if normalizedTerm = ''countries'' \<or> trim rawTerm \<noteq> []
         then (let countryTerm = trim (toLowerCase rawTerm)
               in (collectCities [] (matchingCountries td countryTerm normalizedTerm),
                   ''countries''))
         else ([], []))"

section \<open>The time annotator\<close>

text \<open>
  \<^verbatim>\<open>timezoneMap\<close> is an object literal with six own properties. A lookup
  \<^verbatim>\<open>timezoneMap[item.name]\<close> also finds the members that every object inherits from
  \<^verbatim>\<open>Object.prototype\<close>; their values are functions or objects, not strings.
\<close>

definition timezoneMap :: "(string \<times> string) list" where
  "timezoneMap =
     [(''Sydney, Australia'', ''Australia/Sydney''),
      (''Melbourne, Australia'', ''Australia/Melbourne''),
      (''Tokyo, Japan'', ''Asia/Tokyo''),
      (''Kyoto, Japan'', ''Asia/Tokyo''),
      (''Rio de Janeiro, Brazil'', ''America/Sao_Paulo''),
      (''S'' @ [CHR 0xE3] @ ''o Paulo, Brazil'', ''America/Sao_Paulo'')]"

definition objectPrototypeKeys :: "string list" where
  "objectPrototypeKeys =
     [''constructor'', ''__proto__'', ''hasOwnProperty'', ''isPrototypeOf'',
      ''propertyIsEnumerable'', ''toLocaleString'', ''toString'', ''valueOf'',
      ''__defineGetter__'', ''__defineSetter__'', ''__lookupGetter__'', ''__lookupSetter__'']"

datatype tzvalue = Undefined | Zone string | Inherited

definition timezoneMap_get :: "string \<Rightarrow> tzvalue" where
  "timezoneMap_get key =
     (case map_of timezoneMap key of
        Some zone \<Rightarrow> Zone zone
      | None \<Rightarrow> if key \<in> set objectPrototypeKeys then Inherited else Undefined)"

text \<open>
  \<^verbatim>\<open>new Date().toLocaleTimeString('en-US', {timeZone: timezone, ...})\<close> belongs to the
  platform and reads the clock. It is a parameter of the model: for a zone identifier it
  gives the formatted string, or \<open>None\<close> when the platform rejects the identifier with
  a \<^verbatim>\<open>RangeError\<close>.
\<close>

type_synonym clock = "string \<Rightarrow> string option"

text \<open>
  \<^verbatim>\<open>
  function getCurrentTime(timezone) {
      if (!timezone) return '';
      try {
          const dateOptions = { timeZone: timezone, ... };
          return new Date().toLocaleTimeString('en-US', dateOptions);
      } catch (e) {
          console.error("Invalid timezone:", timezone, e);
          return '';
      }
  }
  \<close>
  \<^verbatim>\<open>undefined\<close> and the empty string are falsy. An inherited member is truthy, and
  converted to a string it is no zone identifier of any platform: the formatter throws
  and the \<^verbatim>\<open>catch\<close> branch returns the empty string.
\<close>

definition getCurrentTime :: "clock \<Rightarrow> tzvalue \<Rightarrow> string" where
  "getCurrentTime toLocaleTimeString timezone =
     (case timezone of
        Undefined \<Rightarrow> []
      | Zone z \<Rightarrow>
          if z = [] then []
          else (case toLocaleTimeString z of Some formatted \<Rightarrow> formatted | None \<Rightarrow> [])
      | Inherited \<Rightarrow> [])"

text \<open>
  The specification's \<open>currentTime(placeName)\<close> is lines 99 and 100 of the renderer:
  the table lookup followed by \<^verbatim>\<open>getCurrentTime\<close>.
\<close>

definition currentTime :: "clock \<Rightarrow> string \<Rightarrow> string" where
  "currentTime toLocaleTimeString placeName =
     getCurrentTime toLocaleTimeString (timezoneMap_get placeName)"

section \<open>The renderer\<close>

text \<open>
  \<^verbatim>\<open>resultsContainer.innerHTML\<close> is built from three templates: the notice for an empty
  result, the notice for a failed load (which interpolates \<^verbatim>\<open>error.message\<close>) and the
  card of one item (which interpolates the image URL, the name, the time paragraph and
  the description). The model keeps the markup as the sequence of template instances:
  the empty string is the empty sequence, an assignment replaces the sequence, and
  \<^verbatim>\<open>innerHTML += itemHtml\<close> appends one card.
\<close>

record card =
  cardImage :: string
  cardName :: string
  timeDisplay :: string
  cardDescription :: string

datatype fragment = NoResultsNotice | LoadErrorNotice string | Card card

record container =
  innerHTML :: "fragment list"
  display :: string
  gridTemplateColumns :: string
  gap :: string
  marginTop :: string

text \<open>
  The body of the \<^verbatim>\<open>forEach\<close> callback of \<^verbatim>\<open>displayRecommendations\<close>, lines 90 to 131.
  \<^verbatim>\<open>
  const imageUrl = item.imageUrl && !item.imageUrl.includes('enter_your_image')
      ? item.imageUrl
      : 'https://placehold.co/400x250/A0B9E8/333333?text=Travel+Destination';
  const isCityResult = category === 'countries';
  let timeDisplay = '';
  if (isCityResult) {
      const timezone = timezoneMap[item.name];
      const currentTime = getCurrentTime(timezone);
      if (currentTime) {
          timeDisplay = `<p style="...">Current Time: ${currentTime}</p>`;
      }
  }
  \<close>
\<close>

definition itemImage :: "place \<Rightarrow> string" where
  "itemImage item =
     (case imageUrl item of
        Some url \<Rightarrow>
          if url \<noteq> [] \<and> \<not> includes_str url ''enter_your_image'' then url
          else ''https://placehold.co/400x250/A0B9E8/333333?text=Travel+Destination''
      | None \<Rightarrow> ''https://placehold.co/400x250/A0B9E8/333333?text=Travel+Destination'')"

definition itemTimeDisplay :: "clock \<Rightarrow> string \<Rightarrow> place \<Rightarrow> string" where
  \<open>itemTimeDisplay toLocaleTimeString category item =
     (let isCityResult = (category = ''countries'')
      in if isCityResult
         then (let timezone = timezoneMap_get (name item);
                   currentTime = getCurrentTime toLocaleTimeString timezone
               in if currentTime \<noteq> []
                  then ''<p style="font-size: 0.9em; font-weight: bold; color: #ff5722; margin-top: 10px;">Current Time: ''
                       @ currentTime @ ''</p>''
                  else [])
         else [])\<close>

definition itemCard :: "clock \<Rightarrow> string \<Rightarrow> place \<Rightarrow> card" where
  "itemCard toLocaleTimeString category item =
     \<lparr>cardImage = itemImage item,
      cardName = name item,
      timeDisplay = itemTimeDisplay toLocaleTimeString category item,
      cardDescription = description item\<rparr>"

fun appendCards :: "clock \<Rightarrow> string \<Rightarrow> place list \<Rightarrow> container \<Rightarrow> container" where
  "appendCards toLocaleTimeString category [] c = c"
| "appendCards toLocaleTimeString category (item # rest) c =
     appendCards toLocaleTimeString category rest
       (c\<lparr>innerHTML := innerHTML c @ [Card (itemCard toLocaleTimeString category item)]\<rparr>)"

text \<open>
  \<^verbatim>\<open>
  function displayRecommendations(results, category) {
      resultsContainer.innerHTML = '';
      if (results.length === 0) {
          resultsContainer.innerHTML = `... Sorry, no recommendations found ...`;
          return;
      }
      resultsContainer.style.display = 'grid';
      resultsContainer.style.gridTemplateColumns = 'repeat(auto-fit, minmax(300px, 1fr))';
      resultsContainer.style.gap = '30px';
      resultsContainer.style.marginTop = '40px';
      results.forEach(item => { ...; resultsContainer.innerHTML += itemHtml; });
  }
  \<close>
\<close>

definition displayRecommendations ::
    "clock \<Rightarrow> place list \<Rightarrow> string \<Rightarrow> container \<Rightarrow> container" where
  "displayRecommendations toLocaleTimeString results category c =
     (let c0 = c\<lparr>innerHTML := []\<rparr>
      in if length results = 0 then c0\<lparr>innerHTML := [NoResultsNotice]\<rparr>
         else appendCards toLocaleTimeString category results
                (c0\<lparr>display := ''grid'',
                    gridTemplateColumns := ''repeat(auto-fit, minmax(300px, 1fr))'',
                    gap := ''30px'',
                    marginTop := ''40px''\<rparr>))"

section \<open>The page state, the data loader and the two actions\<close>

text \<open>
  The script keeps the dataset in the global \<^verbatim>\<open>travelData\<close>, \<^verbatim>\<open>null\<close> until a load
  succeeds. The page supplies the search field and the results container (lines 2 to 5;
  the model is of a page that has them, so the test \<^verbatim>\<open>if (resultsContainer)\<close> of the
  loader holds). \<open>fetches\<close> is not a variable of the script: it counts the network
  requests issued so far.
\<close>

record state =
  travelData :: "dataset option"
  searchInput :: string
  resultsContainer :: container
  fetches :: nat

text \<open>
  What the network does with one request: \<^verbatim>\<open>fetch\<close> rejects with a message, or it
  answers with \<^verbatim>\<open>response.ok\<close>, \<^verbatim>\<open>response.status\<close> and a body that
  \<^verbatim>\<open>response.json()\<close> either rejects with a message or parses to a dataset.
\<close>

datatype fetch_outcome =
    Rejected string
  | Response bool nat "string + dataset"

function showNat :: "nat \<Rightarrow> string" where
  "showNat n =
     (if n < 10 then [char_of (48 + n)]
      else showNat (n div 10) @ [char_of (48 + n mod 10)])"
  by pat_completeness auto
termination
  by (relation "measure id") auto

declare showNat.simps [simp del]

text \<open>
  The \<^verbatim>\<open>try\<close> block of \<^verbatim>\<open>fetchRecommendations\<close>, lines 194 to 200: \<open>Inl\<close> carries
  \<^verbatim>\<open>error.message\<close> of whatever the \<^verbatim>\<open>catch\<close> clause receives.
  \<^verbatim>\<open>
  const response = await fetch('travel_recommendation_api.json');
  if (!response.ok) {
      throw new Error(`HTTP error! Status: ${response.status}. Check if
                       'travel_recommendation_api.json' exists.`);
  }
  const data = await response.json();
  \<close>
\<close>

definition fetchAttempt :: "fetch_outcome \<Rightarrow> string + dataset" where
  "fetchAttempt net =
     (case net of
        Rejected message \<Rightarrow> Inl message
      | Response ok status body \<Rightarrow>
          if \<not> ok
          then Inl (''HTTP error! Status: '' @ showNat status
                    @ ''. Check if 'travel_recommendation_api.json' exists.'')
          else body)"

text \<open>
  \<^verbatim>\<open>
  async function fetchRecommendations() {
      try {
          ...
          travelData = data;
          return data;
      } catch (error) {
          console.error(...);
          if (resultsContainer) {
              resultsContainer.innerHTML = `... <p>Details: ${error.message}</p> ...`;
          }
          return null;
      }
  }
  \<close>
  The function has no test of \<^verbatim>\<open>travelData\<close>: every call issues a request.
\<close>

definition fetchRecommendations :: "fetch_outcome \<Rightarrow> state \<Rightarrow> dataset option \<times> state" where
  "fetchRecommendations net s =
     (let s1 = s\<lparr>fetches := fetches s + 1\<rparr>
      in case fetchAttempt net of
           Inr data \<Rightarrow> (Some data, s1\<lparr>travelData := Some data\<rparr>)
         | Inl message \<Rightarrow>
             (None,
              s1\<lparr>resultsContainer :=
                    (resultsContainer s1)\<lparr>innerHTML := [LoadErrorNotice message]\<rparr>\<rparr>))"

text \<open>
  \<^verbatim>\<open>
  async function performSearch() {
      if (!travelData) {
          travelData = await fetchRecommendations();
          if (!travelData) return;
      }
      const rawTerm = searchInput.value;
      ...
      displayRecommendations(results, category);
  }
  \<close>
  \<open>net\<close> is the answer the network gives if this search issues a request. The
  definition below is the run of one search in which nothing else happens between its
  request and the answer. A search suspends at the \<^verbatim>\<open>await\<close>, and other handlers run
  in between: the section on overlapping loads cuts the search there.
\<close>

definition searchAndDisplay :: "clock \<Rightarrow> dataset \<Rightarrow> state \<Rightarrow> state" where
  "searchAndDisplay toLocaleTimeString td s =
     (let rawTerm = searchInput s;
          (results, category) = searchLogic td rawTerm
      in s\<lparr>resultsContainer :=
             displayRecommendations toLocaleTimeString results category (resultsContainer s)\<rparr>)"

definition performSearch :: "clock \<Rightarrow> fetch_outcome \<Rightarrow> state \<Rightarrow> state" where
  "performSearch toLocaleTimeString net s =
     (case travelData s of
        Some td \<Rightarrow> searchAndDisplay toLocaleTimeString td s
      | None \<Rightarrow>
          (let (data, s1) = fetchRecommendations net s;
               s2 = s1\<lparr>travelData := data\<rparr>
           in case travelData s2 of
                None \<Rightarrow> s2
              | Some td \<Rightarrow> searchAndDisplay toLocaleTimeString td s2))"

text \<open>
  The click handler of the reset button, lines 237 to 247.
  \<^verbatim>\<open>
  searchInput.value = '';
  resultsContainer.innerHTML = '';
  resultsContainer.style.display = 'block';
  resultsContainer.style.marginTop = '0';
  \<close>
\<close>

definition resetClick :: "state \<Rightarrow> state" where
  "resetClick s =
     s\<lparr>searchInput := [],
       resultsContainer :=
         (resultsContainer s)\<lparr>innerHTML := [], display := ''block'', marginTop := ''0''\<rparr>\<rparr>"

text \<open>
  One action of the user, run to its end with nothing in between: typing and resetting
  have no \<^verbatim>\<open>await\<close>; for a search see \<open>performSearch\<close> above.
\<close>

datatype action = Type string | Search clock fetch_outcome | Reset

fun step :: "action \<Rightarrow> state \<Rightarrow> state" where
  "step (Type text) s = s\<lparr>searchInput := text\<rparr>"
| "step (Search toLocaleTimeString net) s = performSearch toLocaleTimeString net s"
| "step Reset s = resetClick s"

section \<open>Overlapping loads\<close>

text \<open>
  The script is single-threaded, and a handler runs without interruption up to an
  \<^verbatim>\<open>await\<close>. There it suspends, and other handlers run before it goes on:
  \<^item> \<^verbatim>\<open>fetchRecommendations\<close> issues the request and suspends (line 194); when the
    network has answered it goes on to its \<^verbatim>\<open>return\<close>, through \<^verbatim>\<open>travelData = data\<close>
    or through the \<^verbatim>\<open>catch\<close> clause;
  \<^item> \<^verbatim>\<open>performSearch\<close> with no dataset calls the loader and suspends (line 143); when
    the loader has returned it assigns the returned value to \<^verbatim>\<open>travelData\<close> and goes on;
  \<^item> the handler of \<^verbatim>\<open>DOMContentLoaded\<close> calls the loader and does not wait for it
    (line 225).
  The three pieces of the two functions:
\<close>

definition requestIssued :: "state \<Rightarrow> state" where
  "requestIssued s = s\<lparr>fetches := fetches s + 1\<rparr>"

definition loaderContinues :: "fetch_outcome \<Rightarrow> state \<Rightarrow> dataset option \<times> state" where
  "loaderContinues net s =
     (case fetchAttempt net of
        Inr data \<Rightarrow> (Some data, s\<lparr>travelData := Some data\<rparr>)
      | Inl message \<Rightarrow>
          (None,
           s\<lparr>resultsContainer :=
                (resultsContainer s)\<lparr>innerHTML := [LoadErrorNotice message]\<rparr>\<rparr>))"

definition searchContinues :: "clock \<Rightarrow> dataset option \<Rightarrow> state \<Rightarrow> state" where
  "searchContinues toLocaleTimeString data s =
     (let s2 = s\<lparr>travelData := data\<rparr>
      in case travelData s2 of
           None \<Rightarrow> s2
         | Some td \<Rightarrow> searchAndDisplay toLocaleTimeString td s2)"

text \<open>
  What is in flight: a loader call that nobody waits for (the one of line 225), a search
  whose loader call waits for the network, and a search whose loader call has returned
  a value that line 143 has not assigned yet.
\<close>

datatype task = PageLoad | SearchLoad | SearchReturn "dataset option"

record session =
  page :: state
  pending :: "task list"

definition removeTask :: "nat \<Rightarrow> task list \<Rightarrow> task list" where
  "removeTask i ts = take i ts @ drop (Suc i) ts"

text \<open>
  The events of a session. \<open>NetworkAnswers i net\<close>: the request of the pending task
  number \<open>i\<close> is answered with \<open>net\<close>, and its loader call runs to its return.
  \<open>SearchResumes i\<close>: the pending search number \<open>i\<close>, whose loader call has returned,
  goes on from line 143. An event that names no such task changes nothing. The browser
  resumes a search right after its loader call returns; here any event may come in
  between, so the sessions of the model include those of the browser.
\<close>

datatype event =
    DOMContentLoaded
  | TypeText string
  | SearchClick clock
  | ResetClick
  | NetworkAnswers nat fetch_outcome
  | SearchResumes nat clock

fun advance :: "event \<Rightarrow> session \<Rightarrow> session" where
  "advance DOMContentLoaded ss =
     ss\<lparr>page := requestIssued (page ss), pending := pending ss @ [PageLoad]\<rparr>"
| "advance (TypeText text) ss = ss\<lparr>page := (page ss)\<lparr>searchInput := text\<rparr>\<rparr>"
| "advance (SearchClick toLocaleTimeString) ss =
     (case travelData (page ss) of
        Some td \<Rightarrow> ss\<lparr>page := searchAndDisplay toLocaleTimeString td (page ss)\<rparr>
      | None \<Rightarrow> ss\<lparr>page := requestIssued (page ss), pending := pending ss @ [SearchLoad]\<rparr>)"
| "advance ResetClick ss = ss\<lparr>page := resetClick (page ss)\<rparr>"
| "advance (NetworkAnswers i net) ss =
     (if i < length (pending ss)
      then (case pending ss ! i of
              PageLoad \<Rightarrow>
                ss\<lparr>page := snd (loaderContinues net (page ss)),
                   pending := removeTask i (pending ss)\<rparr>
            | SearchLoad \<Rightarrow>
                ss\<lparr>page := snd (loaderContinues net (page ss)),
                   pending := (pending ss)[i := SearchReturn (fst (loaderContinues net (page ss)))]\<rparr>
            | SearchReturn data \<Rightarrow> ss)
      else ss)"
| "advance (SearchResumes i toLocaleTimeString) ss =
     (if i < length (pending ss)
      then (case pending ss ! i of
              SearchReturn data \<Rightarrow>
                ss\<lparr>page := searchContinues toLocaleTimeString data (page ss),
                   pending := removeTask i (pending ss)\<rparr>
            | PageLoad \<Rightarrow> ss
            | SearchLoad \<Rightarrow> ss)
      else ss)"

fun runEvents :: "event list \<Rightarrow> session \<Rightarrow> session" where
  "runEvents [] ss = ss"
| "runEvents (e # es) ss = runEvents es (advance e ss)"



section \<open>A small dataset and a page to run the model on\<close>

definition exampleData :: dataset where
  "exampleData =
     \<lparr>countries =
        [\<lparr>countryName = ''Japan'',
          cities = [\<lparr>name = ''Tokyo, Japan'', imageUrl = Some ''tokyo.jpg'',
                     description = ''Capital''\<rparr>,
                    \<lparr>name = ''Kyoto, Japan'', imageUrl = None,
                     description = ''Old capital''\<rparr>]\<rparr>,
         \<lparr>countryName = ''Brazil'',
          cities = [\<lparr>name = ''Rio de Janeiro, Brazil'',
                     imageUrl = Some ''enter_your_image_for_rio.jpg'',
                     description = ''Carnival''\<rparr>]\<rparr>],
      beaches = Some [\<lparr>name = ''Bora Bora, French Polynesia'', imageUrl = Some ''bora.jpg'',
                       description = ''Lagoon''\<rparr>,
                      \<lparr>name = ''Copacabana Beach, Brazil'', imageUrl = Some ''copa.jpg'',
                       description = ''City beach''\<rparr>],
      temples = None\<rparr>"

definition emptyContainer :: container where
  "emptyContainer =
     \<lparr>innerHTML = [], display = [], gridTemplateColumns = [], gap = [], marginTop = []\<rparr>"

definition initialState :: state where
  "initialState =
     \<lparr>travelData = None, searchInput = [], resultsContainer = emptyContainer, fetches = 0\<rparr>"

definition okResponse :: fetch_outcome where
  "okResponse = Response True 200 (Inr exampleData)"

definition notFoundResponse :: fetch_outcome where
  "notFoundResponse = Response False 404 (Inl ''Unexpected token < in JSON at position 0'')"


definition quietSession :: session where
  "quietSession = \<lparr>page = initialState, pending = []\<rparr>"

definition exampleClock :: clock where
  "exampleClock zone =
     (if zone = ''Asia/Tokyo'' then Some ''Nov 2, 2026, 9:15:00 PM'' else None)"

section \<open>Facts about the string operations\<close>

lemma includes_str_sublist: "includes_str s t \<longleftrightarrow> sublist t s"
  by (induction s) (simp_all add: sublist_Cons_right)

lemma includes_str_decompose: "includes_str s t \<longleftrightarrow> (\<exists>p q. s = p @ t @ q)"
  by (simp add: includes_str_sublist sublist_def)

lemma isWhiteSpace_lowerChar [simp]: "isWhiteSpace (lowerChar c) = isWhiteSpace c"
proof -
  let ?n = "of_char c :: nat"
  show ?thesis
  proof (cases "(65 \<le> ?n \<and> ?n \<le> 90) \<or> (192 \<le> ?n \<and> ?n \<le> 222 \<and> ?n \<noteq> 215)")
    case True
    then have l: "lowerChar c = char_of (?n + 32)"
      unfolding lowerChar_def Let_def by (rule if_P)
    from True have "(?n + 32) mod 256 = ?n + 32" by auto
    then have "(of_char (lowerChar c) :: nat) = ?n + 32"
      by (simp add: l)
    with True show ?thesis
      unfolding isWhiteSpace_def by auto
  next
    case False
    then have "lowerChar c = c"
      unfolding lowerChar_def Let_def by (rule if_not_P)
    then show ?thesis by simp
  qed
qed

lemma dropWhile_white_toLowerCase:
  "dropWhile isWhiteSpace (toLowerCase s) = toLowerCase (dropWhile isWhiteSpace s)"
  by (simp add: toLowerCase_def dropWhile_map comp_def)

lemma rev_toLowerCase: "rev (toLowerCase s) = toLowerCase (rev s)"
  by (simp add: toLowerCase_def rev_map)

lemma trim_toLowerCase: "trim (toLowerCase s) = toLowerCase (trim s)"
  by (simp add: trim_def dropWhile_white_toLowerCase rev_toLowerCase)

lemma toLowerCase_Nil_iff [simp]: "toLowerCase s = [] \<longleftrightarrow> s = []"
  by (simp add: toLowerCase_def)

lemma length_toLowerCase [simp]: "length (toLowerCase s) = length s"
  by (simp add: toLowerCase_def)

lemma dropWhile_white_Nil_iff:
  "(\<forall>c \<in> set (dropWhile isWhiteSpace s). isWhiteSpace c) \<longleftrightarrow> (\<forall>c \<in> set s. isWhiteSpace c)"
proof
  assume a: "\<forall>c \<in> set (dropWhile isWhiteSpace s). isWhiteSpace c"
  have "dropWhile isWhiteSpace s = []"
  proof (rule ccontr)
    assume n: "dropWhile isWhiteSpace s \<noteq> []"
    then have "\<not> isWhiteSpace (hd (dropWhile isWhiteSpace s))" by (rule hd_dropWhile)
    moreover from n have "hd (dropWhile isWhiteSpace s) \<in> set (dropWhile isWhiteSpace s)"
      by (rule hd_in_set)
    ultimately show False using a by blast
  qed
  then show "\<forall>c \<in> set s. isWhiteSpace c"
    by (simp add: dropWhile_eq_Nil_conv)
next
  assume "\<forall>c \<in> set s. isWhiteSpace c"
  then show "\<forall>c \<in> set (dropWhile isWhiteSpace s). isWhiteSpace c"
    by (auto dest: set_dropWhileD)
qed

lemma trim_Nil_iff: "trim s = [] \<longleftrightarrow> (\<forall>c \<in> set s. isWhiteSpace c)"
  by (simp add: trim_def dropWhile_eq_Nil_conv dropWhile_white_Nil_iff)

lemma dropWhile_white_trim:
  "dropWhile isWhiteSpace s =
     trim s @ rev (takeWhile isWhiteSpace (rev (dropWhile isWhiteSpace s)))"
proof -
  let ?r = "dropWhile isWhiteSpace s"
  have "rev ?r = takeWhile isWhiteSpace (rev ?r) @ dropWhile isWhiteSpace (rev ?r)"
    by simp
  then have "rev (rev ?r) =
      rev (dropWhile isWhiteSpace (rev ?r)) @ rev (takeWhile isWhiteSpace (rev ?r))"
    by (simp only: rev_append [symmetric])
  then show ?thesis
    by (simp add: trim_def)
qed

lemma trim_decompose:
  "\<exists>p q. s = p @ trim s @ q \<and> (\<forall>c \<in> set p. isWhiteSpace c) \<and> (\<forall>c \<in> set q. isWhiteSpace c)"
proof -
  let ?p = "takeWhile isWhiteSpace s"
  let ?r = "dropWhile isWhiteSpace s"
  let ?q = "rev (takeWhile isWhiteSpace (rev ?r))"
  have "s = ?p @ ?r" by simp
  then have "s = ?p @ trim s @ ?q"
    using dropWhile_white_trim [of s] by simp
  moreover have "\<forall>c \<in> set ?p. isWhiteSpace c"
    by (auto dest: set_takeWhileD)
  moreover have "\<forall>c \<in> set ?q. isWhiteSpace c"
    by (auto dest: set_takeWhileD)
  ultimately show ?thesis by blast
qed

lemma trim_last:
  assumes "trim s \<noteq> []"
  shows "\<not> isWhiteSpace (last (trim s))"
proof -
  let ?u = "dropWhile isWhiteSpace (rev (dropWhile isWhiteSpace s))"
  from assms have u: "?u \<noteq> []" by (simp add: trim_def)
  then have "\<not> isWhiteSpace (hd ?u)" by (rule hd_dropWhile)
  with u show ?thesis
    by (simp add: trim_def last_rev)
qed

lemma trim_hd:
  assumes "trim s \<noteq> []"
  shows "\<not> isWhiteSpace (hd (trim s))"
proof -
  let ?r = "dropWhile isWhiteSpace s"
  have r: "?r = trim s @ rev (takeWhile isWhiteSpace (rev ?r))"
    by (rule dropWhile_white_trim)
  have "?r \<noteq> []"
  proof
    assume "?r = []"
    with r have "trim s = []" by (metis append_is_Nil_conv)
    with assms show False by simp
  qed
  then have "\<not> isWhiteSpace (hd ?r)" by (rule hd_dropWhile)
  moreover from assms r have "hd ?r = hd (trim s)"
    by (metis hd_append2)
  ultimately show ?thesis by simp
qed

section \<open>Facts about the search, the renderer and the loader\<close>

lemma pushCities_append:
  "pushCities results cs =
     results @ map (\<lambda>city. \<lparr>name = name city, imageUrl = imageUrl city,
                             description = description city\<rparr>) cs"
  by (induction cs arbitrary: results) simp_all

lemma collectCities_concat:
  "collectCities results cs =
     results @ concat (map (\<lambda>country. map (\<lambda>city. \<lparr>name = name city, imageUrl = imageUrl city,
                             description = description city\<rparr>) (cities country)) cs)"
  by (induction cs arbitrary: results) (simp_all add: pushCities_append)

lemma normalizeInput_white:
  assumes "\<forall>c \<in> set raw. isWhiteSpace c"
  shows "normalizeInput raw = []"
proof -
  from assms have "trim raw = []" by (simp add: trim_Nil_iff)
  then have "trim (toLowerCase raw) = []" by (simp add: trim_toLowerCase)
  then show ?thesis by (simp add: normalizeInput_def)
qed

lemma appendCards_map:
  "appendCards clk category results c =
     c\<lparr>innerHTML := innerHTML c @ map (\<lambda>item. Card (itemCard clk category item)) results\<rparr>"
  by (induction results arbitrary: c) simp_all

lemma displayRecommendations_cards:
  "results \<noteq> [] \<Longrightarrow>
   innerHTML (displayRecommendations clk results category c) =
     map (\<lambda>item. Card (itemCard clk category item)) results"
  by (simp add: displayRecommendations_def Let_def appendCards_map)

lemma displayRecommendations_empty:
  "innerHTML (displayRecommendations clk [] category c) = [NoResultsNotice]"
  by (simp add: displayRecommendations_def)

lemma timezoneMap_zone_nonempty:
  "map_of timezoneMap key = Some zone \<Longrightarrow> zone \<noteq> []"
  by (auto simp: timezoneMap_def split: if_splits)


lemma performSearch_cached:
  "travelData s = Some td \<Longrightarrow> performSearch clk net s = searchAndDisplay clk td s"
  by (simp add: performSearch_def)

lemma fetchRecommendations_pieces:
  "fetchRecommendations net s = loaderContinues net (requestIssued s)"
  by (simp add: fetchRecommendations_def loaderContinues_def requestIssued_def Let_def)

lemma performSearch_pieces:
  "performSearch clk net s =
     (case travelData s of
        Some td \<Rightarrow> searchAndDisplay clk td s
      | None \<Rightarrow> searchContinues clk (fst (loaderContinues net (requestIssued s)))
                  (snd (loaderContinues net (requestIssued s))))"
  by (simp add: performSearch_def searchContinues_def fetchRecommendations_pieces Let_def
      split: prod.splits option.splits)

lemma removeTask_single [simp]: "removeTask 0 [t] = []"
  by (simp add: removeTask_def)


text \<open>
  A search that nothing interrupts, cut into its three events, is \<open>performSearch\<close>;
  a search with the dataset cached is one event.
\<close>

lemma uninterrupted_search:
  assumes "pending ss = []"
  shows "travelData (page ss) = None \<Longrightarrow>
           runEvents [SearchClick clk, NetworkAnswers 0 net, SearchResumes 0 clk] ss =
             ss\<lparr>page := performSearch clk net (page ss)\<rparr>"
    and "travelData (page ss) = Some td \<Longrightarrow>
           advance (SearchClick clk) ss = ss\<lparr>page := performSearch clk net (page ss)\<rparr>"
  using assms by (simp_all add: performSearch_pieces)







text \<open>
  Why the loads must not overlap. The page load is in flight when the user searches: the
  search issues a second request. The page load succeeds; the search's request fails, and
  line 143 assigns the \<^verbatim>\<open>null\<close> it returns over the dataset just cached. The next search
  finds no dataset and issues a third request.
\<close>

lemma overlapping_search_clears_cache:
  "fetches (page (runEvents [DOMContentLoaded, SearchClick exampleClock,
       NetworkAnswers 0 okResponse] quietSession)) = 2
   \<and> travelData (page (runEvents [DOMContentLoaded, SearchClick exampleClock,
       NetworkAnswers 0 okResponse] quietSession)) = Some exampleData
   \<and> travelData (page (runEvents [DOMContentLoaded, SearchClick exampleClock,
       NetworkAnswers 0 okResponse, NetworkAnswers 0 notFoundResponse,
       SearchResumes 0 exampleClock] quietSession)) = None
   \<and> fetches (page (runEvents [DOMContentLoaded, SearchClick exampleClock,
       NetworkAnswers 0 okResponse, NetworkAnswers 0 notFoundResponse,
       SearchResumes 0 exampleClock, SearchClick exampleClock] quietSession)) = 3"
  by (simp add: quietSession_def initialState_def requestIssued_def loaderContinues_def
      fetchAttempt_def okResponse_def notFoundResponse_def removeTask_def searchContinues_def)

lemma fetchRecommendations_success:
  "fetchAttempt net = Inr td \<Longrightarrow>
   fetchRecommendations net s = (Some td, s\<lparr>fetches := fetches s + 1, travelData := Some td\<rparr>)"
  by (simp add: fetchRecommendations_def Let_def)

lemma fetchRecommendations_failure:
  "fetchAttempt net = Inl detail \<Longrightarrow>
   fetchRecommendations net s =
     (None, s\<lparr>fetches := fetches s + 1,
              resultsContainer := (resultsContainer s)\<lparr>innerHTML := [LoadErrorNotice detail]\<rparr>\<rparr>)"
  by (simp add: fetchRecommendations_def Let_def)

lemma currentTime_unmapped:
  "map_of timezoneMap placeName = None \<Longrightarrow> currentTime clk placeName = []"
  by (simp add: currentTime_def timezoneMap_get_def getCurrentTime_def)

lemma currentTime_mapped:
  "map_of timezoneMap placeName = Some zone \<Longrightarrow>
   currentTime clk placeName = (case clk zone of Some formatted \<Rightarrow> formatted | None \<Rightarrow> [])"
  by (simp add: currentTime_def timezoneMap_get_def getCurrentTime_def timezoneMap_zone_nonempty)

section \<open>Claims\<close>

text \<open>
  C1. For every raw input, \<open>normalizeInput\<close> lowercases and trims it, and returns
  \<open>beaches\<close> if the result contains \<open>beach\<close>, else \<open>temples\<close> if it contains
  \<open>temple\<close>, else \<open>countries\<close> if it contains \<open>country\<close>, else the lowercased
  trimmed string itself. The checks run in that order: an input with both \<open>beach\<close> and
  \<open>temple\<close> gives \<open>beaches\<close>. Containment is stated with \<^const>\<open>sublist\<close>, that is,
  an occurrence at some position.
\<close>

theorem normalizeInput_spec:
  "normalizeInput raw =
     (if sublist ''beach'' (trim (toLowerCase raw)) then ''beaches''
      else if sublist ''temple'' (trim (toLowerCase raw)) then ''temples''
      else if sublist ''country'' (trim (toLowerCase raw)) then ''countries''
      else trim (toLowerCase raw))
   \<and> (sublist ''beach'' (trim (toLowerCase raw)) \<and> sublist ''temple'' (trim (toLowerCase raw))
        \<longrightarrow> normalizeInput raw = ''beaches'')"
  by (simp add: normalizeInput_def Let_def includes_str_sublist)

theorem normalizeInput_spec_witness:
  "normalizeInput ''  Temple on the BEACH '' = ''beaches''
   \<and> sublist ''beach'' (trim (toLowerCase ''  Temple on the BEACH ''))
   \<and> sublist ''temple'' (trim (toLowerCase ''  Temple on the BEACH ''))
   \<and> trim (toLowerCase ''  Temple on the BEACH '') = ''temple on the beach''"
proof -
  have t: "trim (toLowerCase ''  Temple on the BEACH '') = ''temple on the beach''"
    by code_simp
  have b: "sublist ''beach'' ''temple on the beach''" by code_simp
  have m: "sublist ''temple'' ''temple on the beach''" by code_simp
  from normalizeInput_spec [of "''  Temple on the BEACH ''"] t b m show ?thesis
    by simp
qed

text \<open>
  C2. When the normalized term is neither \<open>beaches\<close> nor \<open>temples\<close>, and it is
  \<open>countries\<close> or the trimmed raw input is not empty, the search gives the category
  \<open>countries\<close> and exactly the cities of the selected countries: a country is selected
  if its lowercased name contains the lowercased trimmed raw input, or, when the
  normalized term is \<open>countries\<close>, always. Each city comes as a record of name, image URL
  and description; countries keep their stored order and so do the cities of a country;
  nothing is sorted, ranked or removed.
\<close>

theorem search_countries:
  assumes "normalizeInput raw \<noteq> ''beaches''" and "normalizeInput raw \<noteq> ''temples''"
    and "normalizeInput raw = ''countries'' \<or> trim raw \<noteq> []"
  shows "searchLogic td raw =
     (concat (map (\<lambda>country. map (\<lambda>city. \<lparr>name = name city, imageUrl = imageUrl city,
                                            description = description city\<rparr>) (cities country))
         (filter (\<lambda>country. sublist (trim (toLowerCase raw)) (toLowerCase (countryName country))
                             \<or> normalizeInput raw = ''countries'')
            (countries td))),
      ''countries'')"
  using assms
  by (simp add: searchLogic_def Let_def matchingCountries_def collectCities_concat
      includes_str_sublist)

theorem search_countries_witness:
  "normalizeInput '' JAPAN '' \<noteq> ''beaches'' \<and> normalizeInput '' JAPAN '' \<noteq> ''temples''
   \<and> trim '' JAPAN '' \<noteq> []
   \<and> searchLogic exampleData '' JAPAN '' =
       ([\<lparr>name = ''Tokyo, Japan'', imageUrl = Some ''tokyo.jpg'', description = ''Capital''\<rparr>,
         \<lparr>name = ''Kyoto, Japan'', imageUrl = None, description = ''Old capital''\<rparr>],
        ''countries'')"
proof -
  have n: "normalizeInput '' JAPAN '' = ''japan''" by code_simp
  have t: "trim '' JAPAN '' = ''JAPAN''" by code_simp
  have l: "trim (toLowerCase '' JAPAN '') = ''japan''" by code_simp
  have j: "sublist ''japan'' (toLowerCase ''Japan'')" by code_simp
  have b: "\<not> sublist ''japan'' (toLowerCase ''Brazil'')" by code_simp
  have "searchLogic exampleData '' JAPAN '' =
     (concat (map (\<lambda>country. map (\<lambda>city. \<lparr>name = name city, imageUrl = imageUrl city,
                                            description = description city\<rparr>) (cities country))
         (filter (\<lambda>country. sublist (trim (toLowerCase '' JAPAN '')) (toLowerCase (countryName country))
                             \<or> normalizeInput '' JAPAN '' = ''countries'')
            (countries exampleData))),
      ''countries'')"
    by (rule search_countries) (simp_all add: n t)
  then show ?thesis
    by (simp add: n t l j b exampleData_def)
qed


text \<open>
  C3. When the normalized term is \<open>beaches\<close> or \<open>temples\<close>, the category is that
  token and the results are the dataset's sequence of that name, the same items in the
  same order.
\<close>

theorem search_beaches_temples:
  assumes "normalizeInput raw = token" and "token = ''beaches'' \<or> token = ''temples''"
  shows "snd (searchLogic td raw) = token
       \<and> (token = ''beaches'' \<and> beaches td = Some items
            \<or> token = ''temples'' \<and> temples td = Some items
          \<longrightarrow> searchLogic td raw = (items, token))"
  using assms by (auto simp: searchLogic_def Let_def getMember_def)

theorem search_beaches_temples_witness:
  "normalizeInput ''Best BEACH'' = ''beaches''
   \<and> searchLogic exampleData ''Best BEACH'' =
       ([\<lparr>name = ''Bora Bora, French Polynesia'', imageUrl = Some ''bora.jpg'',
          description = ''Lagoon''\<rparr>,
         \<lparr>name = ''Copacabana Beach, Brazil'', imageUrl = Some ''copa.jpg'',
          description = ''City beach''\<rparr>],
        ''beaches'')"
proof -
  have n: "normalizeInput ''Best BEACH'' = ''beaches''" by code_simp
  have b: "beaches exampleData =
       Some [\<lparr>name = ''Bora Bora, French Polynesia'', imageUrl = Some ''bora.jpg'',
               description = ''Lagoon''\<rparr>,
             \<lparr>name = ''Copacabana Beach, Brazil'', imageUrl = Some ''copa.jpg'',
               description = ''City beach''\<rparr>]"
    by (simp add: exampleData_def)
  from search_beaches_temples [OF n, of exampleData] b n show ?thesis
    by simp
qed


text \<open>
  C4. When the raw input is empty or consists of white space only, its normalization is
  none of the three tokens, no branch of the search is taken, and the search gives the
  empty result list and the empty category.
\<close>

theorem search_blank:
  assumes "\<forall>c \<in> set raw. isWhiteSpace c"
  shows "normalizeInput raw \<notin> {''beaches'', ''temples'', ''countries''}
       \<and> searchLogic td raw = ([], [])"
proof -
  from assms have n: "normalizeInput raw = []" by (rule normalizeInput_white)
  from assms have t: "trim raw = []" by (simp add: trim_Nil_iff)
  from n t show ?thesis by (simp add: searchLogic_def)
qed

theorem search_blank_witness:
  "isWhiteSpace (CHR '' '') \<and> isWhiteSpace (CHR 0x09) \<and> isWhiteSpace (CHR 0x0A)
   \<and> normalizeInput [CHR '' '', CHR 0x09, CHR 0x0A] = []
   \<and> searchLogic exampleData [CHR '' '', CHR 0x09, CHR 0x0A] = ([], [])
   \<and> searchLogic exampleData [] = ([], [])"
proof -
  have w: "isWhiteSpace (CHR '' '')" "isWhiteSpace (CHR 0x09)" "isWhiteSpace (CHR 0x0A)"
    by (simp_all add: isWhiteSpace_def)
  then have a: "\<forall>c \<in> set [CHR '' '', CHR 0x09, CHR 0x0A]. isWhiteSpace c"
    by simp
  have n: "normalizeInput [CHR '' '', CHR 0x09, CHR 0x0A] = []"
    using a by (rule normalizeInput_white)
  from search_blank [OF a, of exampleData] search_blank [of "[]" exampleData] w n
  show ?thesis by simp
qed






text \<open>
  C6. When a load fails (the request is rejected, the status is not a success, or the
  body does not parse), the loader returns \<^verbatim>\<open>null\<close>, has issued exactly one request (no
  retry), leaves the cached dataset as it was, and puts into the results container the
  load-error notice that carries the error detail. A search issued while the dataset is
  absent makes one fresh load attempt; if that fails, the search stops there: the dataset
  stays absent and the container shows the load-error notice, not results.
\<close>

theorem load_failure:
  assumes "net = Rejected detail
         \<or> net = Response True status (Inl detail)
         \<or> net = Response False status body
            \<and> detail = ''HTTP error! Status: '' @ showNat status
                       @ ''. Check if 'travel_recommendation_api.json' exists.''"
  shows "fst (fetchRecommendations net s) = None
       \<and> fetches (snd (fetchRecommendations net s)) = fetches s + 1
       \<and> travelData (snd (fetchRecommendations net s)) = travelData s
       \<and> innerHTML (resultsContainer (snd (fetchRecommendations net s))) = [LoadErrorNotice detail]
       \<and> (travelData s = None \<longrightarrow>
            performSearch clk net s = snd (fetchRecommendations net s)
            \<and> fetches (performSearch clk net s) = fetches s + 1
            \<and> travelData (performSearch clk net s) = None
            \<and> innerHTML (resultsContainer (performSearch clk net s)) = [LoadErrorNotice detail])"
proof -
  from assms have a: "fetchAttempt net = Inl detail"
    by (auto simp: fetchAttempt_def)
  then have f: "fetchRecommendations net s =
     (None, s\<lparr>fetches := fetches s + 1,
              resultsContainer := (resultsContainer s)\<lparr>innerHTML := [LoadErrorNotice detail]\<rparr>\<rparr>)"
    by (rule fetchRecommendations_failure)
  then have "travelData s = None \<longrightarrow> performSearch clk net s = snd (fetchRecommendations net s)"
    by (simp add: performSearch_def)
  with f show ?thesis by simp
qed

theorem load_failure_witness:
  "innerHTML (resultsContainer (snd (fetchRecommendations notFoundResponse initialState))) =
     [LoadErrorNotice ''HTTP error! Status: 404. Check if 'travel_recommendation_api.json' exists.'']
   \<and> travelData initialState = None
   \<and> fetches (performSearch exampleClock notFoundResponse initialState) = 1
   \<and> travelData (performSearch exampleClock notFoundResponse initialState) = None
   \<and> innerHTML (resultsContainer (performSearch exampleClock notFoundResponse initialState)) =
     [LoadErrorNotice ''HTTP error! Status: 404. Check if 'travel_recommendation_api.json' exists.'']"
proof -
  have n: "showNat 404 = ''404''" by code_simp
  have i: "travelData initialState = None" "fetches initialState = 0"
    by (simp_all add: initialState_def)
  from load_failure [of notFoundResponse
      "''HTTP error! Status: 404. Check if 'travel_recommendation_api.json' exists.''"
      404 "Inl ''Unexpected token < in JSON at position 0''" initialState exampleClock] n i
  show ?thesis by (simp add: notFoundResponse_def)
qed


text \<open>
  C7. For a place name that is not in the time zone table, and for one whose zone the
  platform formatter rejects, \<open>currentTime\<close> is the empty string. For a name in the table
  whose zone the formatter accepts, it is the formatted string; for \<open>Tokyo, Japan\<close> the
  zone is \<open>Asia/Tokyo\<close> and the result is not empty when the formatted string is not.
  Rendering goes on in every case: a non-empty result list gives exactly one card per
  item, in order, with the item's name and description, and a card whose time is empty
  has no time paragraph; no error notice appears.
\<close>

theorem currentTime_silent:
  "(map_of timezoneMap placeName = None \<longrightarrow> currentTime clk placeName = [])
   \<and> (\<forall>zone. map_of timezoneMap placeName = Some zone \<and> clk zone = None
         \<longrightarrow> currentTime clk placeName = [])
   \<and> (\<forall>zone formatted. map_of timezoneMap placeName = Some zone \<and> clk zone = Some formatted
         \<longrightarrow> currentTime clk placeName = formatted)
   \<and> map_of timezoneMap ''Tokyo, Japan'' = Some ''Asia/Tokyo''
   \<and> (\<forall>formatted. clk ''Asia/Tokyo'' = Some formatted \<and> formatted \<noteq> []
         \<longrightarrow> currentTime clk ''Tokyo, Japan'' = formatted \<and> currentTime clk ''Tokyo, Japan'' \<noteq> [])
   \<and> (results \<noteq> [] \<longrightarrow>
        innerHTML (displayRecommendations clk results category c) =
          map (\<lambda>item. Card (itemCard clk category item)) results
        \<and> (\<forall>item \<in> set results. cardName (itemCard clk category item) = name item
              \<and> cardDescription (itemCard clk category item) = description item
              \<and> (currentTime clk (name item) = [] \<longrightarrow>
                    timeDisplay (itemCard clk category item) = [])))"
proof -
  have tokyo: "map_of timezoneMap ''Tokyo, Japan'' = Some ''Asia/Tokyo''"
    by (simp add: timezoneMap_def)
  have card: "currentTime clk (name item) = [] \<longrightarrow> timeDisplay (itemCard clk category item) = []"
    for item
    by (simp add: itemCard_def itemTimeDisplay_def currentTime_def Let_def)
  have names: "cardName (itemCard clk category item) = name item
      \<and> cardDescription (itemCard clk category item) = description item" for item
    by (simp add: itemCard_def)
  show ?thesis
    using tokyo card names
    by (simp add: currentTime_unmapped currentTime_mapped displayRecommendations_cards)
qed

theorem currentTime_silent_witness:
  "currentTime exampleClock ''Unknown City'' = []
   \<and> currentTime exampleClock ''constructor'' = []
   \<and> currentTime exampleClock ''Sydney, Australia'' = []
   \<and> currentTime exampleClock ''Tokyo, Japan'' = ''Nov 2, 2026, 9:15:00 PM''
   \<and> innerHTML (displayRecommendations exampleClock
        [\<lparr>name = ''Sydney, Australia'', imageUrl = None, description = ''Harbour''\<rparr>,
         \<lparr>name = ''Tokyo, Japan'', imageUrl = None, description = ''Capital''\<rparr>]
        ''countries'' emptyContainer) =
      [Card (itemCard exampleClock ''countries''
               \<lparr>name = ''Sydney, Australia'', imageUrl = None, description = ''Harbour''\<rparr>),
       Card (itemCard exampleClock ''countries''
               \<lparr>name = ''Tokyo, Japan'', imageUrl = None, description = ''Capital''\<rparr>)]
   \<and> timeDisplay (itemCard exampleClock ''countries''
        \<lparr>name = ''Sydney, Australia'', imageUrl = None, description = ''Harbour''\<rparr>) = []"
proof -
  have u: "map_of timezoneMap ''Unknown City'' = None"
    and k: "map_of timezoneMap ''constructor'' = None"
    and y: "map_of timezoneMap ''Sydney, Australia'' = Some ''Australia/Sydney''"
    by (simp_all add: timezoneMap_def)
  have c: "exampleClock ''Australia/Sydney'' = None"
    "exampleClock ''Asia/Tokyo'' = Some ''Nov 2, 2026, 9:15:00 PM''"
    by (simp_all add: exampleClock_def)
  from currentTime_silent [of "''Unknown City''" exampleClock "[]" "''countries''" emptyContainer] u
  have 1: "currentTime exampleClock ''Unknown City'' = []" by simp
  from currentTime_silent [of "''constructor''" exampleClock "[]" "''countries''" emptyContainer] k
  have 2: "currentTime exampleClock ''constructor'' = []" by simp
  from currentTime_silent [of "''Sydney, Australia''" exampleClock
      "[\<lparr>name = ''Sydney, Australia'', imageUrl = None, description = ''Harbour''\<rparr>,
        \<lparr>name = ''Tokyo, Japan'', imageUrl = None, description = ''Capital''\<rparr>]"
      "''countries''" emptyContainer] y c
  have 3: "currentTime exampleClock ''Sydney, Australia'' = []"
    and 4: "currentTime exampleClock ''Tokyo, Japan'' = ''Nov 2, 2026, 9:15:00 PM''"
    and 5: "innerHTML (displayRecommendations exampleClock
        [\<lparr>name = ''Sydney, Australia'', imageUrl = None, description = ''Harbour''\<rparr>,
         \<lparr>name = ''Tokyo, Japan'', imageUrl = None, description = ''Capital''\<rparr>]
        ''countries'' emptyContainer) =
      [Card (itemCard exampleClock ''countries''
               \<lparr>name = ''Sydney, Australia'', imageUrl = None, description = ''Harbour''\<rparr>),
       Card (itemCard exampleClock ''countries''
               \<lparr>name = ''Tokyo, Japan'', imageUrl = None, description = ''Capital''\<rparr>)]"
    and 6: "timeDisplay (itemCard exampleClock ''countries''
        \<lparr>name = ''Sydney, Australia'', imageUrl = None, description = ''Harbour''\<rparr>) = []"
    by simp_all
  from 1 2 3 4 5 6 show ?thesis by simp
qed


text \<open>
  C8. The time paragraph is computed and attached only under the category
  \<open>countries\<close>. Under any other category, \<open>beaches\<close> and \<open>temples\<close> among them, no item
  has a time paragraph and the rendering does not depend on the clock at all. Under
  \<open>countries\<close> an item has the time paragraph exactly when its current time is not empty.
\<close>

theorem time_only_for_countries:
  \<open>(category \<noteq> ''countries'' \<longrightarrow>
      itemTimeDisplay clk category item = []
      \<and> displayRecommendations clk results category c =
          displayRecommendations clk' results category c
      \<and> (\<forall>k. Card k \<in> set (innerHTML (displayRecommendations clk results category c))
            \<longrightarrow> timeDisplay k = []))
   \<and> (category = ''countries'' \<longrightarrow>
        itemTimeDisplay clk category item =
          (if currentTime clk (name item) = [] then []
           else ''<p style="font-size: 0.9em; font-weight: bold; color: #ff5722; margin-top: 10px;">Current Time: ''
                @ currentTime clk (name item) @ ''</p>''))\<close>
proof -
  have no: "category \<noteq> ''countries'' \<Longrightarrow> itemTimeDisplay k category i = []" for k i
    by (simp add: itemTimeDisplay_def)
  have same: "category \<noteq> ''countries'' \<Longrightarrow> itemCard clk category i = itemCard clk' category i" for i
    by (simp add: itemCard_def no)
  have disp: "category \<noteq> ''countries'' \<Longrightarrow>
      displayRecommendations clk results category c = displayRecommendations clk' results category c"
    by (simp add: displayRecommendations_def Let_def appendCards_map same)
  have cards: "category \<noteq> ''countries'' \<Longrightarrow>
      Card k \<in> set (innerHTML (displayRecommendations clk results category c)) \<Longrightarrow> timeDisplay k = []"
    for k
    by (cases "results = []")
      (auto simp: displayRecommendations_empty displayRecommendations_cards itemCard_def no)
  have yes: \<open>category = ''countries'' \<Longrightarrow>
      itemTimeDisplay clk category item =
          (if currentTime clk (name item) = [] then []
           else ''<p style="font-size: 0.9em; font-weight: bold; color: #ff5722; margin-top: 10px;">Current Time: ''
                @ currentTime clk (name item) @ ''</p>'')\<close>
    by (simp add: itemTimeDisplay_def currentTime_def Let_def)
  from no disp cards yes show ?thesis by blast
qed

theorem time_only_for_countries_witness:
  \<open>''beaches'' \<noteq> ''countries''
   \<and> itemTimeDisplay exampleClock ''beaches''
        \<lparr>name = ''Tokyo, Japan'', imageUrl = None, description = ''Capital''\<rparr> = []
   \<and> displayRecommendations exampleClock
        [\<lparr>name = ''Tokyo, Japan'', imageUrl = None, description = ''Capital''\<rparr>]
        ''beaches'' emptyContainer =
      displayRecommendations (\<lambda>zone. None)
        [\<lparr>name = ''Tokyo, Japan'', imageUrl = None, description = ''Capital''\<rparr>]
        ''beaches'' emptyContainer
   \<and> itemTimeDisplay exampleClock ''countries''
        \<lparr>name = ''Tokyo, Japan'', imageUrl = None, description = ''Capital''\<rparr> =
      ''<p style="font-size: 0.9em; font-weight: bold; color: #ff5722; margin-top: 10px;">Current Time: Nov 2, 2026, 9:15:00 PM</p>''\<close>
proof -
  let ?tokyo = "\<lparr>name = ''Tokyo, Japan'', imageUrl = None, description = ''Capital''\<rparr>"
  have t: "currentTime exampleClock ''Tokyo, Japan'' = ''Nov 2, 2026, 9:15:00 PM''"
    by (simp add: currentTime_mapped [of _ "''Asia/Tokyo''"] timezoneMap_def exampleClock_def)
  have b: "itemTimeDisplay exampleClock ''beaches'' ?tokyo = []
      \<and> displayRecommendations exampleClock [?tokyo] ''beaches'' emptyContainer =
        displayRecommendations (\<lambda>zone. None) [?tokyo] ''beaches'' emptyContainer"
    using time_only_for_countries [of "''beaches''" exampleClock ?tokyo "[?tokyo]" emptyContainer
        "\<lambda>zone. None"]
    by simp
  have c: \<open>itemTimeDisplay exampleClock ''countries'' ?tokyo =
      ''<p style="font-size: 0.9em; font-weight: bold; color: #ff5722; margin-top: 10px;">Current Time: Nov 2, 2026, 9:15:00 PM</p>''\<close>
    using time_only_for_countries [of "''countries''" exampleClock ?tokyo "[]" emptyContainer
        exampleClock] t
    by simp
  from b c show ?thesis by simp
qed

text \<open>
  C9. In every state, the reset action empties the search field and the results
  container, sets the container's display to \<open>block\<close> and its top margin to \<open>0\<close>, and
  leaves the cached dataset and the number of requests unchanged.
\<close>

theorem reset_clears:
  "searchInput (resetClick s) = []
   \<and> innerHTML (resultsContainer (resetClick s)) = []
   \<and> display (resultsContainer (resetClick s)) = ''block''
   \<and> marginTop (resultsContainer (resetClick s)) = ''0''
   \<and> travelData (resetClick s) = travelData s
   \<and> fetches (resetClick s) = fetches s
   \<and> fetches (step Reset s) = fetches s \<and> travelData (step Reset s) = travelData s"
  by (simp add: resetClick_def)

theorem reset_clears_witness:
  "resetClick
     \<lparr>travelData = Some exampleData, searchInput = ''japan'',
      resultsContainer =
        \<lparr>innerHTML = [NoResultsNotice], display = ''grid'',
         gridTemplateColumns = ''repeat(auto-fit, minmax(300px, 1fr))'',
         gap = ''30px'', marginTop = ''40px''\<rparr>,
      fetches = 1\<rparr> =
     \<lparr>travelData = Some exampleData, searchInput = [],
      resultsContainer =
        \<lparr>innerHTML = [], display = ''block'',
         gridTemplateColumns = ''repeat(auto-fit, minmax(300px, 1fr))'',
         gap = ''30px'', marginTop = ''0''\<rparr>,
      fetches = 1\<rparr>"
proof -
  let ?s = "\<lparr>travelData = Some exampleData, searchInput = ''japan'',
      resultsContainer =
        \<lparr>innerHTML = [NoResultsNotice], display = ''grid'',
         gridTemplateColumns = ''repeat(auto-fit, minmax(300px, 1fr))'',
         gap = ''30px'', marginTop = ''40px''\<rparr>,
      fetches = 1\<rparr>"
  have g: "gridTemplateColumns (resultsContainer (resetClick ?s)) =
      ''repeat(auto-fit, minmax(300px, 1fr))''"
    and h: "gap (resultsContainer (resetClick ?s)) = ''30px''"
    by (simp_all add: resetClick_def)
  have "resetClick ?s =
     \<lparr>travelData = travelData (resetClick ?s), searchInput = searchInput (resetClick ?s),
      resultsContainer =
        \<lparr>innerHTML = innerHTML (resultsContainer (resetClick ?s)),
         display = display (resultsContainer (resetClick ?s)),
         gridTemplateColumns = gridTemplateColumns (resultsContainer (resetClick ?s)),
         gap = gap (resultsContainer (resetClick ?s)),
         marginTop = marginTop (resultsContainer (resetClick ?s))\<rparr>,
      fetches = fetches (resetClick ?s)\<rparr>"
    by simp
  with reset_clears [of ?s] g h show ?thesis by simp
qed

text \<open>
  C10. When the dataset has no \<open>beaches\<close> member (or no \<open>temples\<close> member) and the
  normalized term is that token, the search still returns: the guard \<^verbatim>\<open>|| []\<close> gives the
  empty result list, with that token as the category.
\<close>

theorem search_absent_member:
  assumes "normalizeInput raw = token"
    and "token = ''beaches'' \<and> beaches td = None \<or> token = ''temples'' \<and> temples td = None"
  shows "searchLogic td raw = ([], token)"
  using assms by (auto simp: searchLogic_def Let_def getMember_def)

theorem search_absent_member_witness:
  "normalizeInput ''ancient temple'' = ''temples'' \<and> temples exampleData = None
   \<and> searchLogic exampleData ''ancient temple'' = ([], ''temples'')"
proof -
  have n: "normalizeInput ''ancient temple'' = ''temples''" by code_simp
  have t: "temples exampleData = None" by (simp add: exampleData_def)
  from search_absent_member [OF n, of exampleData] t n show ?thesis by simp
qed


end
